theory Spec2Isabelle
  imports Main "HOL-Library.Word"
begin

unbundle bit_operations_syntax

section \<open>The two stubs: \<open>gnome_url_show\<close> and \<open>gnome_vfs_init\<close>\<close>

text \<open>
  The repository holds two C functions. \<open>gnome_vfs_init\<close> returns 1.
  \<open>gnome_url_show\<close> forks, runs \<open>/usr/bin/xdg-open url\<close> in the child, waits for the
  child in the parent and turns the wait status into 0 or 1.

  The C function is modelled by explicit state passing over a record \<open>world\<close> that holds
  what the process can observe or change, and it is run against the answers the operating
  system gives to its three system calls (\<open>os_answers\<close>). A call of \<open>fork\<close> continues in
  two processes; the model runs one process at a time, and the answer of \<open>fork\<close> says which
  one: the parent (a child was created), the child, or the caller after a failed \<open>fork\<close>.
\<close>

subsection \<open>C types\<close>

type_synonym c_int = "32 word"   \<comment> \<open>\<open>int\<close>; read as signed with \<open>sint\<close>\<close>
type_synonym pid_t = "32 word"   \<comment> \<open>\<open>pid_t\<close> is a signed 32-bit integer\<close>
type_synonym addr = "64 word"    \<comment> \<open>a pointer; 0 is \<open>NULL\<close>\<close>

subsection \<open>What the platform headers and the C library provide\<close>

text \<open>
  \<open>WIFEXITED\<close> and \<open>WEXITSTATUS\<close> are macros of \<open><sys/wait.h>\<close> and \<open>strerror\<close> is a
  function of the C library; none of them is defined in the repository. The model takes
  them as parameters, so every theorem holds for each platform.
\<close>

record platform =
  WIFEXITED :: "c_int \<Rightarrow> bool"
  WEXITSTATUS :: "c_int \<Rightarrow> c_int"
  strerror :: "c_int \<Rightarrow> string"

text \<open>
  The instance used to evaluate the model on concrete inputs: the wait-status macros as
  glibc on Linux defines them (\<open>(s & 0x7f) == 0\<close> and \<open>(s & 0xff00) >> 8\<close>), and the
  messages of a few Linux error numbers (2 \<open>ENOENT\<close>, 4 \<open>EINTR\<close>, 10 \<open>ECHILD\<close>,
  11 \<open>EAGAIN\<close>, 12 \<open>ENOMEM\<close>, 13 \<open>EACCES\<close>). The table is a sample: it is not the whole
  of \<open>strerror\<close>, and no theorem about all platforms depends on it.
\<close>

definition sample_strerror :: "c_int \<Rightarrow> string" where
  "sample_strerror e =
     (if e = 2 then ''No such file or directory''
      else if e = 4 then ''Interrupted system call''
      else if e = 10 then ''No child processes''
      else if e = 11 then ''Resource temporarily unavailable''
      else if e = 12 then ''Cannot allocate memory''
      else if e = 13 then ''Permission denied''
      else ''Unknown error'')"

definition linux_glibc :: platform where
  "linux_glibc =
     \<lparr> WIFEXITED = (\<lambda>s. s AND 0x7f = 0),
       WEXITSTATUS = (\<lambda>s. drop_bit 8 (s AND 0xff00)),
       strerror = sample_strerror \<rparr>"

subsection \<open>The process state\<close>

text \<open>
  \<open>event\<close> lists what the function asks of its environment, in the order of the calls:
  the three system calls, a line written to the standard error stream, and \<open>exit\<close>.
\<close>

datatype event =
    Fork
  | Execvp string "string list"
  | Waitpid pid_t c_int
  | Stderr string
  | Exit c_int

text \<open>
  \<^item> \<open>errno\<close>: the C library's error number, set by a failing system call;
  \<^item> \<open>trace\<close>: the events of this process so far;
  \<^item> \<open>children\<close>: the children of this process that no successful wait has collected yet
    (running, or terminated and still a zombie);
  \<^item> \<open>store\<close>: the memory of the caller, pointer-sized slots by address.
\<close>

record world =
  errno :: c_int
  trace :: "event list"
  children :: "pid_t set"
  store :: "addr \<rightharpoonup> addr"

text \<open>
  How one process leaves the function: it returns a value to its caller, it ends the
  process with \<open>exit\<close>, or its program image is replaced by \<open>execvp\<close> (the function
  never returns there). For the last two the world is the state of the process at that
  moment.
\<close>

datatype outcome = Returns c_int | Exits c_int | Replaced

subsection \<open>The answers of the operating system\<close>

datatype fork_answer =
    ForkFailed c_int      \<comment> \<open>no child; \<open>fork\<close> returns -1 and sets \<open>errno\<close>\<close>
  | ForkChild             \<comment> \<open>this process is the new child; \<open>fork\<close> returns 0\<close>
  | ForkParent pid_t      \<comment> \<open>this process is the parent; \<open>fork\<close> returns the child's id\<close>

datatype execvp_answer =
    ExecReplaced          \<comment> \<open>the image is replaced; \<open>execvp\<close> does not return\<close>
  | ExecFailed c_int      \<comment> \<open>\<open>execvp\<close> returns -1 and sets \<open>errno\<close>\<close>

datatype waitpid_answer =
    WaitReaped c_int      \<comment> \<open>the child is collected; its status is stored, its id returned\<close>
  | WaitFailed c_int      \<comment> \<open>\<open>waitpid\<close> returns -1 and sets \<open>errno\<close>; nothing is collected\<close>

text \<open>
  \<open>wstatus_garbage\<close> is the indeterminate content of the local variable \<open>wstatus\<close>,
  which the C function does not initialise.
\<close>

record os_answers =
  fork_answer :: fork_answer
  execvp_answer :: execvp_answer
  waitpid_answer :: waitpid_answer
  wstatus_garbage :: c_int

definition fork :: "fork_answer \<Rightarrow> world \<Rightarrow> pid_t \<times> world" where
  "fork a w =
     (case a of
        ForkFailed e \<Rightarrow> (- 1, w\<lparr>errno := e, trace := trace w @ [Fork]\<rparr>)
      | ForkChild \<Rightarrow> (0, w\<lparr>trace := trace w @ [Fork], children := {}\<rparr>)
      | ForkParent p \<Rightarrow>
          (p, w\<lparr>trace := trace w @ [Fork], children := insert p (children w)\<rparr>))"

definition execvp :: "execvp_answer \<Rightarrow> string \<Rightarrow> string list \<Rightarrow> world \<Rightarrow> c_int option \<times> world" where
  "execvp a file argv w =
     (case a of
        ExecReplaced \<Rightarrow> (None, w\<lparr>trace := trace w @ [Execvp file argv]\<rparr>)
      | ExecFailed e \<Rightarrow> (Some (- 1), w\<lparr>errno := e, trace := trace w @ [Execvp file argv]\<rparr>))"

text \<open>
  \<open>waitpid a pid wstatus options\<close>: \<open>wstatus\<close> is the content of the variable the status
  pointer refers to; the result carries its new content with the return value.
\<close>

definition waitpid ::
  "waitpid_answer \<Rightarrow> pid_t \<Rightarrow> c_int \<Rightarrow> c_int \<Rightarrow> world \<Rightarrow> (pid_t \<times> c_int) \<times> world" where
  "waitpid a pid wstatus options w =
     (case a of
        WaitReaped s \<Rightarrow>
          ((pid, s), w\<lparr>trace := trace w @ [Waitpid pid options], children := children w - {pid}\<rparr>)
      | WaitFailed e \<Rightarrow>
          ((- 1, wstatus), w\<lparr>errno := e, trace := trace w @ [Waitpid pid options]\<rparr>))"

definition exit :: "c_int \<Rightarrow> world \<Rightarrow> world" where
  "exit code w = w\<lparr>trace := trace w @ [Exit code]\<rparr>"

subsection \<open>\<open>libgnome2-stub.c\<close>\<close>

text \<open>
  The macro \<open>err(fmt, ...)\<close> is
  \<open>fprintf(stderr, "%s(): error: " fmt "\n", __func__, ...)\<close>; its only uses are inside
  \<open>gnome_url_show\<close>. The argument of the model is the expansion of \<open>fmt\<close>.
\<close>

definition err :: "string \<Rightarrow> world \<Rightarrow> world" where
  "err msg w =
     w\<lparr>trace := trace w @ [Stderr (''gnome_url_show'' @ ''(): error: '' @ msg @ [CHR 0x0A])]\<rparr>"

text \<open>The part of \<open>gnome_url_show\<close> after the comment \<open>/* parent */\<close> (lines 49 to 60).\<close>

definition gnome_url_show_parent :: "platform \<Rightarrow> os_answers \<Rightarrow> pid_t \<Rightarrow> world \<Rightarrow> outcome \<times> world" where
  "gnome_url_show_parent P os pid w =
     (case waitpid (waitpid_answer os) pid (wstatus_garbage os) 0 w of
        ((r, wstatus), w1) \<Rightarrow>
          if r = - 1 then
            (Returns 0, err (''waitpid failed: '' @ strerror P (errno w1) @ [CHR 0x0A]) w1)
          else if WIFEXITED P wstatus then
            (Returns (if WEXITSTATUS P wstatus = 0 then 1 else 0), w1)
          else
            (Returns 0, err ''xdg-open terminated abnormally'' w1))"

text \<open>
  \<open>gnome_url_show P os url error w\<close>: the parameter \<open>error\<close> is marked unused in the
  source and no statement of the body mentions it.
\<close>

definition gnome_url_show ::
  "platform \<Rightarrow> os_answers \<Rightarrow> string \<Rightarrow> addr \<Rightarrow> world \<Rightarrow> outcome \<times> world" where
  "gnome_url_show P os url error w =
     (let xdg_open = [''/usr/bin/xdg-open'', url] in
      case fork (fork_answer os) w of
        (pid, w1) \<Rightarrow>
          if sint pid < 0 then
            (Returns 0, err (''fork failed: '' @ strerror P (errno w1)) w1)
          else if pid = 0 then
            (case execvp (execvp_answer os) (xdg_open ! 0) xdg_open w1 of
               (None, w2) \<Rightarrow> (Replaced, w2)
             | (Some r, w2) \<Rightarrow>
                 if r = - 1 then
                   (Exits 1,
                    exit 1 (err (''spawning xdg-open failed: '' @ strerror P (errno w2)) w2))
                 else gnome_url_show_parent P os pid w2)
          else gnome_url_show_parent P os pid w1)"

subsection \<open>\<open>libgnomevfs2-stub.c\<close>\<close>

definition gnome_vfs_init :: "world \<Rightarrow> c_int \<times> world" where
  "gnome_vfs_init w = (1, w)"

subsection \<open>Reading a trace\<close>

text \<open>The lines written to the standard error stream, in order.\<close>

fun diagnostics :: "event list \<Rightarrow> string list" where
  "diagnostics [] = []"
| "diagnostics (Stderr s # es) = s # diagnostics es"
| "diagnostics (e # es) = diagnostics es"

text \<open>The process ids that \<open>waitpid\<close> was called on, in order.\<close>

fun waits :: "event list \<Rightarrow> pid_t list" where
  "waits [] = []"
| "waits (Waitpid p opts # es) = p # waits es"
| "waits (e # es) = waits es"

fun is_execvp :: "event \<Rightarrow> bool" where
  "is_execvp (Execvp file argv) = True"
| "is_execvp e = False"

text \<open>
  \<open>reports P ws out\<close>: the wait status \<open>ws\<close> that the parent receives is the one of a
  child that left the function with \<open>out\<close>. POSIX fixes it for a child that called
  \<open>exit(code)\<close>: \<open>WIFEXITED(ws)\<close> holds and \<open>WEXITSTATUS(ws)\<close> is the low eight bits of
  \<open>code\<close>. After a successful \<open>execvp\<close> the status is that of the handler, about which
  the function says nothing.
\<close>

definition reports :: "platform \<Rightarrow> c_int \<Rightarrow> outcome \<Rightarrow> bool" where
  "reports P ws out =
     (case out of
        Exits code \<Rightarrow> WIFEXITED P ws \<and> WEXITSTATUS P ws = code AND 0xff
      | Returns r \<Rightarrow> False
      | Replaced \<Rightarrow> False)"

subsection \<open>Concrete inputs\<close>

definition world0 :: world where
  "world0 = \<lparr> errno = 0, trace = [], children = {}, store = Map.empty \<rparr>"

text \<open>A caller whose error slot at address \<open>0x7ffc1000\<close> holds \<open>0xdead\<close>.\<close>

definition world_slot :: world where
  "world_slot = world0\<lparr>store := [0x7ffc1000 \<mapsto> 0xdead]\<rparr>"

text \<open>The parent; the handler exits with 0 (wait status \<open>0x0000\<close>).\<close>

definition parent_exit0 :: os_answers where
  "parent_exit0 =
     \<lparr> fork_answer = ForkParent 4242, execvp_answer = ExecReplaced,
       waitpid_answer = WaitReaped 0, wstatus_garbage = 0 \<rparr>"

text \<open>The parent; the child exits with 1 (wait status \<open>0x0100\<close>).\<close>

definition parent_exit1 :: os_answers where
  "parent_exit1 =
     \<lparr> fork_answer = ForkParent 4242, execvp_answer = ExecReplaced,
       waitpid_answer = WaitReaped 0x100, wstatus_garbage = 0 \<rparr>"

text \<open>The parent; the handler is killed by signal 9 (wait status \<open>0x0009\<close>).\<close>

definition parent_killed :: os_answers where
  "parent_killed =
     \<lparr> fork_answer = ForkParent 4242, execvp_answer = ExecReplaced,
       waitpid_answer = WaitReaped 9, wstatus_garbage = 0 \<rparr>"

text \<open>The parent; \<open>waitpid\<close> is interrupted by a signal handler (\<open>EINTR\<close>, 4).\<close>

definition parent_wait_eintr :: os_answers where
  "parent_wait_eintr =
     \<lparr> fork_answer = ForkParent 4242, execvp_answer = ExecReplaced,
       waitpid_answer = WaitFailed 4, wstatus_garbage = 0 \<rparr>"

text \<open>\<open>fork\<close> fails with \<open>EAGAIN\<close> (11).\<close>

definition fork_eagain :: os_answers where
  "fork_eagain =
     \<lparr> fork_answer = ForkFailed 11, execvp_answer = ExecReplaced,
       waitpid_answer = WaitReaped 0, wstatus_garbage = 0 \<rparr>"

text \<open>The child; \<open>/usr/bin/xdg-open\<close> does not exist (\<open>ENOENT\<close>, 2).\<close>

definition child_enoent :: os_answers where
  "child_enoent =
     \<lparr> fork_answer = ForkChild, execvp_answer = ExecFailed 2,
       waitpid_answer = WaitReaped 0, wstatus_garbage = 0 \<rparr>"

text \<open>The child; \<open>execvp\<close> succeeds.\<close>

definition child_replaced :: os_answers where
  "child_replaced =
     \<lparr> fork_answer = ForkChild, execvp_answer = ExecReplaced,
       waitpid_answer = WaitReaped 0, wstatus_garbage = 0 \<rparr>"

section \<open>Properties\<close>

subsection \<open>The runs of the function, path by path\<close>

lemma sint_pos_facts:
  fixes pid :: pid_t
  assumes "0 < sint pid"
  shows "\<not> sint pid < 0" and "pid \<noteq> 0" and "pid \<noteq> - 1"
  using assms by auto

lemma diagnostics_append: "diagnostics (es @ fs) = diagnostics es @ diagnostics fs"
  by (induction es rule: diagnostics.induct) simp_all

lemma waits_append: "waits (es @ fs) = waits es @ waits fs"
  by (induction es rule: waits.induct) simp_all

lemmas syscall_defs = fork_def execvp_def waitpid_def exit_def err_def

lemma parent_run:
  assumes "fork_answer os = ForkParent pid" and "0 < sint pid"
  shows "gnome_url_show P os url error w =
         gnome_url_show_parent P os pid
           (w\<lparr>trace := trace w @ [Fork], children := insert pid (children w)\<rparr>)"
  using sint_pos_facts [OF assms(2)] assms(1)
  by (simp add: gnome_url_show_def fork_def)

lemma parent_reaped:
  assumes "waitpid_answer os = WaitReaped ws" and "0 < sint pid"
  shows "gnome_url_show_parent P os pid w =
         (if WIFEXITED P ws
          then (Returns (if WEXITSTATUS P ws = 0 then 1 else 0),
                w\<lparr>trace := trace w @ [Waitpid pid 0], children := children w - {pid}\<rparr>)
          else (Returns 0,
                w\<lparr>trace := trace w @ [Waitpid pid 0,
                       Stderr ''gnome_url_show(): error: xdg-open terminated abnormally\<newline>''],
                  children := children w - {pid}\<rparr>))"
  using sint_pos_facts [OF assms(2)] assms(1)
  by (simp add: gnome_url_show_parent_def waitpid_def err_def)

lemma parent_wait_failed:
  assumes "waitpid_answer os = WaitFailed e"
  shows "gnome_url_show_parent P os pid w =
         (Returns 0,
          w\<lparr>errno := e,
            trace := trace w @ [Waitpid pid 0,
              Stderr (''gnome_url_show(): error: waitpid failed: '' @ strerror P e
                      @ ''\<newline>\<newline>'')]\<rparr>)"
  using assms
  by (simp add: gnome_url_show_parent_def waitpid_def err_def)

lemma child_run_exec_failed:
  assumes "fork_answer os = ForkChild" and "execvp_answer os = ExecFailed e"
  shows "gnome_url_show P os url error w =
         (Exits 1,
          w\<lparr>errno := e,
            trace := trace w @
              [Fork, Execvp ''/usr/bin/xdg-open'' [''/usr/bin/xdg-open'', url],
               Stderr (''gnome_url_show(): error: spawning xdg-open failed: '' @ strerror P e
                       @ ''\<newline>''),
               Exit 1],
            children := {}\<rparr>)"
  using assms by (simp add: gnome_url_show_def syscall_defs)

subsection \<open>The URL opener\<close>

text \<open>
  C1. For every URL: when \<open>fork\<close> created a child (it returned a positive process id),
  \<open>waitpid\<close> succeeded and the status says that the child exited normally with code 0,
  \<open>gnome_url_show\<close> returns 1.
\<close>

theorem exit_zero_returns_true:
  assumes "fork_answer os = ForkParent pid" and "0 < sint pid"
    and "waitpid_answer os = WaitReaped ws"
    and "WIFEXITED P ws" and "WEXITSTATUS P ws = 0"
  shows "fst (gnome_url_show P os url error w) = Returns 1"
  by (simp add: parent_run [OF assms(1,2)] parent_reaped [OF assms(3,2)] assms(4,5))

theorem exit_zero_returns_true_witness:
  "fst (gnome_url_show linux_glibc parent_exit0 ''https://example.com'' 0 world0) = Returns 1"
  using exit_zero_returns_true
    [of parent_exit0 4242 0 linux_glibc "''https://example.com''" 0 world0]
  by (simp add: parent_exit0_def linux_glibc_def)

text \<open>
  C2. For every URL: when the child exited normally with a nonzero code,
  \<open>gnome_url_show\<close> returns 0, and the call adds nothing to the standard error
  stream: its events are the \<open>fork\<close> and the \<open>waitpid\<close> only.
\<close>

theorem exit_nonzero_returns_false:
  assumes "fork_answer os = ForkParent pid" and "0 < sint pid"
    and "waitpid_answer os = WaitReaped ws"
    and "WIFEXITED P ws" and "WEXITSTATUS P ws \<noteq> 0"
  shows "fst (gnome_url_show P os url error w) = Returns 0
    \<and> trace (snd (gnome_url_show P os url error w)) = trace w @ [Fork, Waitpid pid 0]
    \<and> diagnostics (trace (snd (gnome_url_show P os url error w))) = diagnostics (trace w)"
  by (simp add: parent_run [OF assms(1,2)] parent_reaped [OF assms(3,2)] assms(4,5)
        diagnostics_append)

theorem exit_nonzero_returns_false_witness:
  "fst (gnome_url_show linux_glibc parent_exit1 ''bogus://nothing'' 0 world0) = Returns 0
   \<and> trace (snd (gnome_url_show linux_glibc parent_exit1 ''bogus://nothing'' 0 world0))
       = [Fork, Waitpid 4242 0]
   \<and> diagnostics (trace (snd (gnome_url_show linux_glibc parent_exit1 ''bogus://nothing'' 0 world0)))
       = []"
  using exit_nonzero_returns_false
    [of parent_exit1 4242 "0x100" linux_glibc "''bogus://nothing''" 0 world0]
  by (simp add: parent_exit1_def linux_glibc_def world0_def)

text \<open>
  C3. When \<open>execvp\<close> fails in the child (the handler is missing or not executable), the
  child writes the diagnostic \<open>spawning xdg-open failed\<close> and then ends with \<open>exit(1)\<close>,
  a nonzero status. In the parent, whose wait status reports that exit, the call
  returns 0; the parent itself writes nothing, the diagnostic that was emitted is the
  child's.
\<close>

theorem exec_failure_child_exits_parent_false:
  assumes "fork_answer osc = ForkChild" and "execvp_answer osc = ExecFailed e"
    and "fork_answer osp = ForkParent pid" and "0 < sint pid"
    and "waitpid_answer osp = WaitReaped ws"
    and "reports P ws (fst (gnome_url_show P osc url error wc))"
  shows "fst (gnome_url_show P osc url error wc) = Exits 1
    \<and> trace (snd (gnome_url_show P osc url error wc)) =
           trace wc @
             [Fork, Execvp ''/usr/bin/xdg-open'' [''/usr/bin/xdg-open'', url],
              Stderr (''gnome_url_show(): error: spawning xdg-open failed: '' @ strerror P e
                      @ ''\<newline>''),
              Exit 1]
    \<and> fst (gnome_url_show P osp url error wp) = Returns 0
    \<and> diagnostics (trace (snd (gnome_url_show P osp url error wp))) = diagnostics (trace wp)"
proof -
  note child = child_run_exec_failed [OF assms(1,2)]
  from assms(6) have ws: "WIFEXITED P ws" "WEXITSTATUS P ws = 1"
    by (simp_all add: child reports_def)
  have parent: "gnome_url_show P osp url error wp =
      (Returns 0, wp\<lparr>trace := trace wp @ [Fork, Waitpid pid 0],
                      children := insert pid (children wp) - {pid}\<rparr>)"
    by (simp add: parent_run [OF assms(3,4)] parent_reaped [OF assms(5,4)] ws)
  show ?thesis
    by (simp add: child parent diagnostics_append)
qed

theorem exec_failure_child_exits_parent_false_witness:
  "fst (gnome_url_show linux_glibc child_enoent ''https://example.com'' 0 world0) = Exits 1
   \<and> trace (snd (gnome_url_show linux_glibc child_enoent ''https://example.com'' 0 world0)) =
       [Fork, Execvp ''/usr/bin/xdg-open'' [''/usr/bin/xdg-open'', ''https://example.com''],
        Stderr ''gnome_url_show(): error: spawning xdg-open failed: No such file or directory\<newline>'',
        Exit 1]
   \<and> fst (gnome_url_show linux_glibc parent_exit1 ''https://example.com'' 0 world0) = Returns 0
   \<and> diagnostics (trace (snd (gnome_url_show linux_glibc parent_exit1 ''https://example.com'' 0 world0))) = []"
proof -
  have r: "reports linux_glibc 0x100
             (fst (gnome_url_show linux_glibc child_enoent ''https://example.com'' 0 world0))"
    by (simp add: reports_def linux_glibc_def gnome_url_show_def syscall_defs child_enoent_def)
  show ?thesis
    using exec_failure_child_exits_parent_false
      [of child_enoent 2 parent_exit1 4242 "0x100" linux_glibc "''https://example.com''" 0
          world0 world0, OF _ _ _ _ _ r]
    by (simp add: child_enoent_def parent_exit1_def linux_glibc_def world0_def sample_strerror_def)
qed

text \<open>
  C4. When the status says that the child did not exit normally (it was killed by a
  signal), \<open>gnome_url_show\<close> writes the diagnostic \<open>xdg-open terminated abnormally\<close> to
  the standard error stream and returns 0.
\<close>

theorem signal_death_returns_false:
  assumes "fork_answer os = ForkParent pid" and "0 < sint pid"
    and "waitpid_answer os = WaitReaped ws"
    and "\<not> WIFEXITED P ws"
  shows "fst (gnome_url_show P os url error w) = Returns 0
    \<and> trace (snd (gnome_url_show P os url error w)) =
           trace w @ [Fork, Waitpid pid 0,
             Stderr ''gnome_url_show(): error: xdg-open terminated abnormally\<newline>'']"
  by (simp add: parent_run [OF assms(1,2)] parent_reaped [OF assms(3,2)] assms(4))

theorem signal_death_returns_false_witness:
  "fst (gnome_url_show linux_glibc parent_killed ''https://example.com'' 0 world0) = Returns 0
   \<and> trace (snd (gnome_url_show linux_glibc parent_killed ''https://example.com'' 0 world0)) =
       [Fork, Waitpid 4242 0,
        Stderr ''gnome_url_show(): error: xdg-open terminated abnormally\<newline>'']"
  using signal_death_returns_false
    [of parent_killed 4242 9 linux_glibc "''https://example.com''" 0 world0]
  by (simp add: parent_killed_def linux_glibc_def world0_def)

text \<open>
  C5. When \<open>fork\<close> fails, \<open>gnome_url_show\<close> writes the diagnostic \<open>fork failed\<close> with the
  error message to the standard error stream and returns 0. The call consists of that
  one \<open>fork\<close> and the diagnostic: there is no second \<open>fork\<close>, no \<open>execvp\<close> and no
  \<open>waitpid\<close>, and nothing else of the process changes but \<open>errno\<close>.
\<close>

theorem fork_failure_returns_false:
  assumes "fork_answer os = ForkFailed e"
  shows "gnome_url_show P os url error w =
         (Returns 0,
          w\<lparr>errno := e,
            trace := trace w @
              [Fork, Stderr (''gnome_url_show(): error: fork failed: '' @ strerror P e
                             @ ''\<newline>'')]\<rparr>)"
  using assms by (simp add: gnome_url_show_def syscall_defs)

theorem fork_failure_returns_false_witness:
  "gnome_url_show linux_glibc fork_eagain ''https://example.com'' 0 world0 =
     (Returns 0,
      world0\<lparr>errno := 11,
        trace := [Fork,
          Stderr ''gnome_url_show(): error: fork failed: Resource temporarily unavailable\<newline>'']\<rparr>)"
  using fork_failure_returns_false
    [of fork_eagain 11 linux_glibc "''https://example.com''" 0 world0]
  by (simp add: fork_eagain_def linux_glibc_def world0_def sample_strerror_def)

text \<open>
  C6. When the \<open>waitpid\<close> call on the child fails, \<open>gnome_url_show\<close> writes the
  diagnostic \<open>waitpid failed\<close> with the error message and returns 0. (The format string
  of this call ends with a newline of its own, so the line ends with two.)
\<close>

theorem wait_failure_returns_false:
  assumes "fork_answer os = ForkParent pid" and "0 < sint pid"
    and "waitpid_answer os = WaitFailed e"
  shows "fst (gnome_url_show P os url error w) = Returns 0
    \<and> trace (snd (gnome_url_show P os url error w)) =
           trace w @ [Fork, Waitpid pid 0,
             Stderr (''gnome_url_show(): error: waitpid failed: '' @ strerror P e
                     @ ''\<newline>\<newline>'')]"
  by (simp add: parent_run [OF assms(1,2)] parent_wait_failed [OF assms(3)])

theorem wait_failure_returns_false_witness:
  "fst (gnome_url_show linux_glibc parent_wait_eintr ''https://example.com'' 0 world0) = Returns 0
   \<and> trace (snd (gnome_url_show linux_glibc parent_wait_eintr ''https://example.com'' 0 world0)) =
       [Fork, Waitpid 4242 0,
        Stderr ''gnome_url_show(): error: waitpid failed: Interrupted system call\<newline>\<newline>'']"
  using wait_failure_returns_false
    [of parent_wait_eintr 4242 4 linux_glibc "''https://example.com''" 0 world0]
  by (simp add: parent_wait_eintr_def linux_glibc_def world0_def sample_strerror_def)

text \<open>
  C7, as amended. Every path of \<open>gnome_url_show\<close> that created a child returns to its
  caller after exactly one \<open>waitpid\<close> call on that child. When that call succeeds, the
  child has been collected when the function returns, and the children of the process
  are those it had before. When that call fails, the function returns 0 without a second
  attempt and the child is still among the children of the process.
\<close>

theorem created_child_waited_once:
  assumes "fork_answer os = ForkParent pid" and "0 < sint pid"
  shows "(\<exists>r. fst (gnome_url_show P os url error w) = Returns r)
    \<and> waits (trace (snd (gnome_url_show P os url error w))) = waits (trace w) @ [pid]
    \<and> (case waitpid_answer os of
          WaitReaped s \<Rightarrow>
            children (snd (gnome_url_show P os url error w)) = children w - {pid}
        | WaitFailed e \<Rightarrow>
            fst (gnome_url_show P os url error w) = Returns 0
            \<and> children (snd (gnome_url_show P os url error w)) = insert pid (children w))"
proof (cases "waitpid_answer os")
  case (WaitReaped s)
  show ?thesis
    by (simp add: parent_run [OF assms] parent_reaped [OF WaitReaped assms(2)] WaitReaped
          waits_append)
next
  case (WaitFailed e)
  show ?thesis
    by (simp add: parent_run [OF assms] parent_wait_failed [OF WaitFailed] WaitFailed
          waits_append)
qed

theorem created_child_waited_once_witness:
  "(\<exists>r. fst (gnome_url_show linux_glibc parent_exit0 ''https://example.com'' 0 world0)
         = Returns r)
   \<and> waits (trace (snd (gnome_url_show linux_glibc parent_exit0 ''https://example.com'' 0 world0)))
       = [4242]
   \<and> children (snd (gnome_url_show linux_glibc parent_exit0 ''https://example.com'' 0 world0)) = {}"
proof -
  have f: "fork_answer parent_exit0 = ForkParent 4242"
    and a: "waitpid_answer parent_exit0 = WaitReaped 0"
    by (simp_all add: parent_exit0_def)
  have p: "0 < sint (4242 :: pid_t)"
    by simp
  show ?thesis
    using created_child_waited_once
      [OF f p, of linux_glibc "''https://example.com''" 0 world0]
    by (simp add: a world0_def)
qed

text \<open>
  The statement without the amendment, that no created child is left after the call
  returns on any path, fails where \<open>waitpid\<close> is interrupted: \<open>fork\<close> created child 4242,
  the call returned 0, and 4242 is still a child that nobody has waited for.
\<close>

theorem child_reaped_on_return_counterexample:
  "fork_answer parent_wait_eintr = ForkParent 4242
   \<and> 4242 \<notin> children world0
   \<and> fst (gnome_url_show linux_glibc parent_wait_eintr ''https://example.com'' 0 world0)
       = Returns 0
   \<and> 4242 \<in> children
       (snd (gnome_url_show linux_glibc parent_wait_eintr ''https://example.com'' 0 world0))"
  by (simp add: gnome_url_show_def gnome_url_show_parent_def syscall_defs
        parent_wait_eintr_def world0_def)

subsection \<open>The VFS initialiser\<close>

text \<open>
  C8. \<open>gnome_vfs_init\<close> takes no argument, returns the fixed nonzero value 1 on every
  call and leaves the state of the process as it was.
\<close>

theorem gnome_vfs_init_returns_one:
  "fst (gnome_vfs_init w) = 1 \<and> fst (gnome_vfs_init w) \<noteq> 0
   \<and> fst (gnome_vfs_init w) = fst (gnome_vfs_init w') \<and> snd (gnome_vfs_init w) = w"
  by (simp add: gnome_vfs_init_def)

subsection \<open>Frame and independence\<close>

text \<open>
  C9. For every call and every value of the parameter \<open>error\<close>, null or not, the
  memory of the caller is after the call what it was before, on every path: the slot
  that \<open>error\<close> refers to is never written.
\<close>

theorem error_slot_never_written:
  "store (snd (gnome_url_show P os url error w)) = store w"
  by (simp add: gnome_url_show_def gnome_url_show_parent_def syscall_defs Let_def
        split: fork_answer.splits execvp_answer.splits waitpid_answer.splits)

theorem error_slot_never_written_witness:
  "store (snd (gnome_url_show linux_glibc parent_killed ''https://example.com'' 0x7ffc1000
                 world_slot)) 0x7ffc1000 = Some 0xdead"
  using error_slot_never_written
    [of linux_glibc parent_killed "''https://example.com''" "0x7ffc1000" world_slot]
  by (simp add: world_slot_def)

text \<open>
  C10. The URL reaches nothing but the argument vector of \<open>execvp\<close>. For two URLs and
  the same answers of the operating system, the two calls leave the function the same
  way (in particular they return the same value) and perform the same events apart from
  the \<open>execvp\<close> call. That call happens exactly when \<open>fork\<close> returned 0, and its
  argument vector is the handler's path followed by the URL as it was given.
\<close>

theorem url_only_reaches_execvp_argument:
  "fst (gnome_url_show P os url error w) = fst (gnome_url_show P os url' error w)
   \<and> filter (\<lambda>e. \<not> is_execvp e) (trace (snd (gnome_url_show P os url error w)))
     = filter (\<lambda>e. \<not> is_execvp e) (trace (snd (gnome_url_show P os url' error w)))
   \<and> filter is_execvp (trace (snd (gnome_url_show P os url error w)))
     = filter is_execvp (trace w)
       @ (if fst (fork (fork_answer os) w) = 0
          then [Execvp ''/usr/bin/xdg-open'' [''/usr/bin/xdg-open'', url]] else [])"
  by (simp add: gnome_url_show_def gnome_url_show_parent_def syscall_defs Let_def
        split: fork_answer.splits execvp_answer.splits waitpid_answer.splits)

theorem url_only_reaches_execvp_argument_witness:
  "fst (gnome_url_show linux_glibc child_replaced ''https://example.com'' 0 world0)
     = fst (gnome_url_show linux_glibc child_replaced ''bogus://nothing'' 0 world0)
   \<and> filter is_execvp
       (trace (snd (gnome_url_show linux_glibc child_replaced ''https://example.com'' 0 world0)))
     = [Execvp ''/usr/bin/xdg-open'' [''/usr/bin/xdg-open'', ''https://example.com'']]"
  using url_only_reaches_execvp_argument
    [of linux_glibc child_replaced "''https://example.com''" 0 world0 "''bogus://nothing''"]
  by (simp add: child_replaced_def world0_def fork_def)

end
